theory Spec2Isabelle
  imports Main "HOL-Library.Word"
begin

section \<open>directorywatcher: the event loop of \<open>directorywatcher.go\<close>\<close>

subsection \<open>Events of the underlying fsnotify watcher\<close>

text \<open>
  \<open>fsnotify.Op\<close> is a \<open>uint32\<close> bit mask. The package \<open>gopkg.in/fsnotify.v1\<close> is
  an import of \<open>directorywatcher.go\<close> and declares
  \<^verbatim>\<open>const ( Create Op = 1 << iota; Write; Remove; Rename; Chmod )\<close>.
  The \<open>switch ev.Op\<close> of \<open>watcherLoop\<close> compares the whole value with \<open>==\<close>, so a
  mask with two bits set is none of the four named operations.
\<close>

type_synonym Op = "32 word"

definition Create :: Op where "Create = 1"
definition Write :: Op where "Write = 2"
definition Remove :: Op where "Remove = 4"
definition Rename :: Op where "Rename = 8"
definition Chmod :: Op where "Chmod = 16"

record Event =
  Name :: string
  Op :: Op

subsection \<open>Config and handlers\<close>

text \<open>
  \<open>type OnCreate func(path string) error\<close> and \<open>type OnRemove func(path string) error\<close>:
  a handler maps the path to its returned error, \<open>None\<close> for \<open>nil\<close> and \<open>Some msg\<close> for
  an error whose \<open>Error()\<close> is \<open>msg\<close>. A Go func value may be \<open>nil\<close>
  (\<open>NewVaultCsiStore\<close> passes \<open>nil\<close> for both), hence the option around the function;
  calling a nil func panics. The \<open>Logger\<close> field is a \<open>log.Wrapper\<close>, whose \<open>Log\<close>
  method accepts a nil receiver; the model records each message handed to it.
\<close>

type_synonym OnCreate = "string \<Rightarrow> string option"
type_synonym OnRemove = "string \<Rightarrow> string option"

record Config =
  Path :: string
  OnCreate :: "OnCreate option"
  OnRemove :: "OnRemove option"

subsection \<open>State of the background task\<close>

datatype handler = OnCreateHandler | OnRemoveHandler

text \<open>
  What the loop does to the outside, in the order it does it: \<open>Invoke h path\<close> is the
  call of handler \<open>h\<close> with argument \<open>path\<close>, \<open>LoggerLog msg\<close> the call
  \<open>logger.Log(ctx, msg)\<close>, \<open>WatcherClose\<close> the call \<open>watcher.Close()\<close>.
\<close>

datatype effect =
    Invoke handler string
  | LoggerLog string
  | WatcherClose

text \<open>
  Where the goroutine running \<open>watcherLoop\<close> stands: blocked in the \<open>select\<close>, inside
  a handler call made from the \<open>switch\<close>, returned from \<open>watcherLoop\<close>, or panicked
  (a call of a nil func).
\<close>

datatype control =
    AtSelect
  | InHandler handler string
  | Returned
  | Panicked

text \<open>
  \<open>ctx_done\<close> is the state of the channel \<open>w.ctx.Done()\<close>: closed once \<open>w.cancel()\<close> has
  run or the parent context has ended. \<open>trace\<close> lists the effects so far.
\<close>

record loop_state =
  control :: control
  ctx_done :: bool
  trace :: "effect list"

text \<open>What one \<open>select\<close> receives: one of its three cases.\<close>

datatype received =
    CtxDone
  | WatcherError string
  | WatcherEvent Event

text \<open>
  A step of the system: another goroutine cancels the context (\<open>Stop\<close>, or the parent
  context ends), the loop's \<open>select\<close> takes a case, or the handler that is running
  returns.
\<close>

datatype input =
    Cancel
  | Select received
  | HandlerReturn

subsection \<open>\<open>Stop\<close>\<close>

text \<open>\<open>func (w *directoryWatcher) Stop() { w.cancel() }\<close>\<close>

definition Stop :: "loop_state \<Rightarrow> loop_state" where
  "Stop s = s\<lparr>ctx_done := True\<rparr>"

subsection \<open>\<open>watcherLoop\<close>\<close>

definition handler_of :: "Config \<Rightarrow> handler \<Rightarrow> (string \<Rightarrow> string option) option" where
  "handler_of cfg h = (case h of OnCreateHandler \<Rightarrow> OnCreate cfg | OnRemoveHandler \<Rightarrow> OnRemove cfg)"

definition handler_error_prefix :: "handler \<Rightarrow> string" where
  "handler_error_prefix h =
     (case h of
        OnCreateHandler \<Rightarrow> ''directorywatcher: create handler error: ''
      | OnRemoveHandler \<Rightarrow> ''directorywatcher: remove handler error: '')"

text \<open>
  The call statement \<open>onCreate(ev.Name)\<close> or \<open>onRemove(ev.Name)\<close>. The trace records
  that the statement is executed, with its argument; when the func value is nil the
  call panics at once, and otherwise the handler runs.
\<close>

definition call_handler :: "Config \<Rightarrow> handler \<Rightarrow> string \<Rightarrow> loop_state \<Rightarrow> loop_state" where
  "call_handler cfg h path s =
     (case handler_of cfg h of
        None \<Rightarrow> s\<lparr>control := Panicked, trace := trace s @ [Invoke h path]\<rparr>
      | Some f \<Rightarrow> s\<lparr>control := InHandler h path, trace := trace s @ [Invoke h path]\<rparr>)"

text \<open>
  The handler returns \<open>err\<close>; \<open>if err != nil\<close> the loop logs it. Either way the
  \<open>switch\<close> and the \<open>select\<close> are over and the \<open>for\<close> starts its next iteration.
\<close>

definition handler_returns :: "Config \<Rightarrow> handler \<Rightarrow> string \<Rightarrow> loop_state \<Rightarrow> loop_state" where
  "handler_returns cfg h path s =
     (case handler_of cfg h of
        None \<Rightarrow> s\<lparr>control := Panicked\<rparr>
      | Some f \<Rightarrow>
          (case f path of
             None \<Rightarrow> s\<lparr>control := AtSelect\<rparr>
           | Some err \<Rightarrow>
               s\<lparr>control := AtSelect,
                 trace := trace s @ [LoggerLog (handler_error_prefix h @ err)]\<rparr>))"

text \<open>The body of the \<open>select\<close>, one equation for each \<open>case\<close>.\<close>

fun select_case :: "Config \<Rightarrow> received \<Rightarrow> loop_state \<Rightarrow> loop_state" where
  "select_case cfg CtxDone s = s\<lparr>control := Returned, trace := trace s @ [WatcherClose]\<rparr>"
| "select_case cfg (WatcherError err) s =
     s\<lparr>trace := trace s @ [LoggerLog (''directorywatcher: watcher error: '' @ err)]\<rparr>"
| "select_case cfg (WatcherEvent ev) s =
     (if Op ev = Create \<or> Op ev = Write then call_handler cfg OnCreateHandler (Name ev) s
      else if Op ev = Remove \<or> Op ev = Rename then call_handler cfg OnRemoveHandler (Name ev) s
      else s)"

text \<open>
  A receive from \<open>w.ctx.Done()\<close> is possible only once the channel is closed; the other
  two channels are fed by fsnotify.
\<close>

fun ready :: "received \<Rightarrow> loop_state \<Rightarrow> bool" where
  "ready CtxDone s = ctx_done s"
| "ready (WatcherError err) s = True"
| "ready (WatcherEvent ev) s = True"

text \<open>
  One step; \<open>None\<close> when the input cannot happen in the state (a \<open>select\<close> while the
  goroutine is not at the \<open>select\<close>, a return with no handler running).
\<close>

fun step :: "Config \<Rightarrow> input \<Rightarrow> loop_state \<Rightarrow> loop_state option" where
  "step cfg Cancel s = Some (Stop s)"
| "step cfg (Select r) s =
     (if control s = AtSelect \<and> ready r s then Some (select_case cfg r s) else None)"
| "step cfg HandlerReturn s =
     (case control s of
        InHandler h path \<Rightarrow> Some (handler_returns cfg h path s)
      | _ \<Rightarrow> None)"

fun watcherLoop :: "Config \<Rightarrow> input list \<Rightarrow> loop_state \<Rightarrow> loop_state option" where
  "watcherLoop cfg [] s = Some s"
| "watcherLoop cfg (i # is) s =
     (case step cfg i s of None \<Rightarrow> None | Some s' \<Rightarrow> watcherLoop cfg is s')"

subsection \<open>\<open>New\<close>\<close>

text \<open>
  The two fsnotify calls of \<open>New\<close> are the environment: \<open>NewWatcher_err\<close> is the error
  of \<open>fsnotify.NewWatcher()\<close> and \<open>Add_err path\<close> that of \<open>fsWatcher.Add(path)\<close>.
\<close>

record fsnotify =
  NewWatcher_err :: "string option"
  Add_err :: "string \<Rightarrow> string option"

text \<open>
  \<open>returned_err\<close> is the second result of \<open>New\<close>; \<open>started\<close> is the state in which the
  \<open>go watcher.watcherLoop(...)\<close> statement starts the goroutine, \<open>None\<close> when the
  statement is not reached. The context is fresh from \<open>context.WithCancel\<close>;
  \<open>parent_done\<close> tells whether the parent context has ended already.
\<close>

record New_result =
  returned_err :: "string option"
  started :: "loop_state option"

definition New :: "fsnotify \<Rightarrow> bool \<Rightarrow> Config \<Rightarrow> New_result" where
  "New fs parent_done cfg =
     (case NewWatcher_err fs of
        Some err \<Rightarrow> \<lparr>returned_err = Some err, started = None\<rparr>
      | None \<Rightarrow>
          (case Add_err fs (Path cfg) of
             Some err \<Rightarrow> \<lparr>returned_err = Some err, started = None\<rparr>
           | None \<Rightarrow>
               \<lparr>returned_err = None,
                started = Some \<lparr>control = AtSelect, ctx_done = parent_done, trace = []\<rparr>\<rparr>))"

section \<open>secrets: \<open>config.go\<close> and \<open>store.go\<close>\<close>

subsection \<open>\<open>config.go\<close>\<close>

datatype Provider = VaultProvider | VaultCsiProvider

record secrets_Config =
  secrets_Path :: string
  Provider :: string

text \<open>
  \<open>getProvider\<close> returns a pair \<open>(Provider, error)\<close>; the error is \<open>None\<close> for \<open>nil\<close>
  and otherwise the text built by \<open>fmt.Errorf\<close>.
\<close>

definition getProvider :: "secrets_Config \<Rightarrow> Provider \<times> string option" where
  "getProvider c =
     (if Provider c = ''vault'' then (VaultProvider, None)
      else if Provider c = ''vault_csi'' then (VaultCsiProvider, None)
      else (VaultProvider,
            Some (''unknown secret provider '' @ Provider c @
                  '', must be one of ['vault', 'vault_csi']'')))"

subsection \<open>Handlers and middlewares\<close>

text \<open>
  \<open>type SecretHandlerFunc func(sec *Secrets)\<close> returns nothing: all it does is its
  effect on the rest of the program. The model threads that rest, of any type \<open>'w\<close>,
  through every call. \<open>'sec\<close> stands for \<open>*Secrets\<close>, declared in \<open>secrets.go\<close>.
\<close>

type_synonym ('sec, 'w) SecretHandlerFunc = "'sec \<Rightarrow> 'w \<Rightarrow> 'w"

type_synonym ('sec, 'w) SecretMiddleware =
  "('sec, 'w) SecretHandlerFunc \<Rightarrow> ('sec, 'w) SecretHandlerFunc"

definition nopSecretHandlerFunc :: "('sec, 'w) SecretHandlerFunc" where
  "nopSecretHandlerFunc sec w = w"

text \<open>A call either panics with a message or returns.\<close>

datatype 'a outcome = Panic string | Return 'a

subsection \<open>The file watcher under the store\<close>

text \<open>
  Modelled from the spec: the package \<open>filewatcher\<close> (\<open>filewatcher.New\<close> and the methods
  \<open>Get\<close> and \<open>Stop\<close> of \<open>filewatcher.FileWatcher\<close>) is imported by \<open>store.go\<close> and is not
  among the sources. The spec, section 4.2: \<open>New(scope, path, parser, logger)\<close> fails if
  the initial read and parse fails or the path cannot be watched; \<open>Get()\<close> returns the
  last successfully parsed value; \<open>Stop()\<close> is idempotent and halts further re-parsing.
  \<open>files\<close> gives the content of each path that can be read before the deadline.
\<close>

record 'a FileWatcher =
  data :: 'a
  stopped :: bool

text \<open>Modelled from the spec: \<open>Get()\<close> returns the last successfully parsed value.\<close>

definition filewatcher_Get :: "'a FileWatcher \<Rightarrow> 'a" where
  "filewatcher_Get fw = data fw"

text \<open>Modelled from the spec: \<open>Stop()\<close> halts further re-parsing and keeps the value.\<close>

definition filewatcher_Stop :: "'a FileWatcher \<Rightarrow> 'a FileWatcher" where
  "filewatcher_Stop fw = fw\<lparr>stopped := True\<rparr>"

text \<open>
  Modelled from the spec: \<open>New\<close> reads the file and runs the parser once; it fails when
  the path has not become readable in time or when that first parse fails, and
  otherwise holds the parsed value.
\<close>

definition filewatcher_New ::
  "(string \<Rightarrow> string option) \<Rightarrow> string \<Rightarrow> (string \<Rightarrow> 'w \<Rightarrow> (string + 'a) \<times> 'w) \<Rightarrow> 'w \<Rightarrow>
     (string + 'a FileWatcher) \<times> 'w" where
  "filewatcher_New files path parse w =
     (case files path of
        None \<Rightarrow> (Inl ''filewatcher: context deadline exceeded'', w)
      | Some r \<Rightarrow>
          (case parse r w of
             (Inl err, w') \<Rightarrow> (Inl err, w')
           | (Inr v, w') \<Rightarrow> (Inr \<lparr>data = v, stopped = False\<rparr>, w')))"

subsection \<open>\<open>store\<close>\<close>

text \<open>The \<open>watcher\<close> field is an interface value, \<open>nil\<close> until \<open>NewStore\<close> assigns it.\<close>

record ('sec, 'w) store =
  watcher :: "'sec FileWatcher option"
  secretHandlerFunc :: "('sec, 'w) SecretHandlerFunc"

text \<open>\<open>secretHandler\<close>: the \<open>for _, m := range middlewares\<close> loop.\<close>

fun secretHandler ::
  "('sec, 'w) store \<Rightarrow> ('sec, 'w) SecretMiddleware list \<Rightarrow> ('sec, 'w) store" where
  "secretHandler s [] = s"
| "secretHandler s (m # middlewares) =
     secretHandler (s\<lparr>secretHandlerFunc := m (secretHandlerFunc s)\<rparr>) middlewares"

text \<open>
  \<open>parser\<close>: \<open>NewSecrets\<close> (in \<open>secrets.go\<close>) is a parameter; the reader \<open>r\<close> is the
  bytes it yields. The result is the returned pair, as a sum, with the state after the call.
\<close>

definition parser ::
  "(string \<Rightarrow> string + 'sec) \<Rightarrow> ('sec, 'w) store \<Rightarrow> string \<Rightarrow> 'w \<Rightarrow> (string + 'sec) \<times> 'w" where
  "parser NewSecrets s r w =
     (case NewSecrets r of
        Inl err \<Rightarrow> (Inl err, w)
      | Inr secrets \<Rightarrow> (Inr secrets, secretHandlerFunc s secrets w))"

definition NewStore ::
  "(string \<Rightarrow> string + 'sec) \<Rightarrow> (string \<Rightarrow> string option) \<Rightarrow> string \<Rightarrow>
     ('sec, 'w) SecretMiddleware list \<Rightarrow> 'w \<Rightarrow> (string + ('sec, 'w) store) \<times> 'w" where
  "NewStore NewSecrets files path middlewares w =
     (let store = secretHandler \<lparr>watcher = None, secretHandlerFunc = nopSecretHandlerFunc\<rparr>
                    middlewares
      in case filewatcher_New files path (parser NewSecrets store) w of
           (Inl err, w') \<Rightarrow> (Inl err, w')
         | (Inr result, w') \<Rightarrow> (Inr (store\<lparr>watcher := Some result\<rparr>), w'))"

text \<open>\<open>InitFromConfig\<close>: the timeout of the context is the deadline behind \<open>files\<close>.\<close>

definition InitFromConfig ::
  "(string \<Rightarrow> string + 'sec) \<Rightarrow> (string \<Rightarrow> string option) \<Rightarrow> secrets_Config \<Rightarrow> 'w \<Rightarrow>
     (string + ('sec, 'w) store) \<times> 'w" where
  "InitFromConfig NewSecrets files cfg w =
     (case NewStore NewSecrets files (secrets_Path cfg) [] w of
        (Inl err, w') \<Rightarrow> (Inl err, w')
      | (Inr store, w') \<Rightarrow> (Inr store, w'))"

text \<open>\<open>getSecrets\<close>: a method call on a nil interface value panics.\<close>

definition getSecrets :: "('sec, 'w) store \<Rightarrow> 'sec outcome" where
  "getSecrets s =
     (case watcher s of
        None \<Rightarrow> Panic ''invalid memory address or nil pointer dereference''
      | Some fw \<Rightarrow> Return (filewatcher_Get fw))"

text \<open>\<open>AddMiddlewares\<close> returns nothing: the result is the store and the state after it.\<close>

definition AddMiddlewares ::
  "('sec, 'w) store \<Rightarrow> ('sec, 'w) SecretMiddleware list \<Rightarrow> 'w \<Rightarrow> (('sec, 'w) store \<times> 'w) outcome" where
  "AddMiddlewares s middlewares w =
     (let s' = secretHandler s middlewares
      in case getSecrets s' of
           Panic msg \<Rightarrow> Panic msg
         | Return secrets \<Rightarrow> Return (s', secretHandlerFunc s' secrets w))"

definition Close :: "('sec, 'w) store \<Rightarrow> (('sec, 'w) store \<times> string option) outcome" where
  "Close s =
     (case watcher s of
        None \<Rightarrow> Panic ''invalid memory address or nil pointer dereference''
      | Some fw \<Rightarrow> Return (s\<lparr>watcher := Some (filewatcher_Stop fw)\<rparr>, None))"

subsection \<open>\<open>vaultCsiStore\<close>\<close>

text \<open>
  The five methods below have the body \<open>panic("implement me")\<close>. A method with results
  \<open>(T, error)\<close> would return a pair of a value and an optional error; the types \<open>'a\<close>
  stand for \<open>SimpleSecret\<close>, \<open>VersionedSecret\<close>, \<open>CredentialSecret\<close> and \<open>Vault\<close>.
\<close>

record ('sec, 'w) vaultCsiStore =
  csi_watcher :: "loop_state option"
  csi_secretHandlerFunc :: "('sec, 'w) SecretHandlerFunc"

definition vaultCsiStore_AddMiddlewares ::
  "('sec, 'w) vaultCsiStore \<Rightarrow> ('sec, 'w) SecretMiddleware list \<Rightarrow> 'w \<Rightarrow>
     (('sec, 'w) vaultCsiStore \<times> 'w) outcome" where
  "vaultCsiStore_AddMiddlewares s middlewares w = Panic ''implement me''"

definition vaultCsiStore_GetSimpleSecret ::
  "('sec, 'w) vaultCsiStore \<Rightarrow> string \<Rightarrow> ('a \<times> string option) outcome" where
  "vaultCsiStore_GetSimpleSecret s path = Panic ''implement me''"

definition vaultCsiStore_GetVersionedSecret ::
  "('sec, 'w) vaultCsiStore \<Rightarrow> string \<Rightarrow> ('a \<times> string option) outcome" where
  "vaultCsiStore_GetVersionedSecret s path = Panic ''implement me''"

definition vaultCsiStore_GetCredentialSecret ::
  "('sec, 'w) vaultCsiStore \<Rightarrow> string \<Rightarrow> ('a \<times> string option) outcome" where
  "vaultCsiStore_GetCredentialSecret s path = Panic ''implement me''"

definition vaultCsiStore_GetVault ::
  "('sec, 'w) vaultCsiStore \<Rightarrow> ('a \<times> string option) outcome" where
  "vaultCsiStore_GetVault s = Panic ''implement me''"

section \<open>The handler chain as the specification writes it\<close>

text \<open>
  \<open>chain = m_n(m_{n-1}(...m_1(noop)))\<close> for the middlewares \<open>m_1..m_n\<close> in the order of
  their registration: \<open>wrap\<close> takes them latest first, \<open>chain_spec\<close> in registration order.
\<close>

fun wrap :: "('sec, 'w) SecretMiddleware list \<Rightarrow> ('sec, 'w) SecretHandlerFunc" where
  "wrap [] = nopSecretHandlerFunc"
| "wrap (m # earlier) = m (wrap earlier)"

definition chain_spec :: "('sec, 'w) SecretMiddleware list \<Rightarrow> ('sec, 'w) SecretHandlerFunc" where
  "chain_spec ms = wrap (rev ms)"

section \<open>Concrete inputs\<close>

text \<open>
  A directory watcher over \<open>/secrets\<close> whose create handler fails on one path, and
  states of its loop: fresh, cancelled while at the \<open>select\<close>, and inside a handler.
\<close>

definition cfg0 :: Config where
  "cfg0 = \<lparr>Path = ''/secrets'',
           OnCreate = Some (\<lambda>p. if p = ''/secrets/bad'' then Some ''unreadable'' else None),
           OnRemove = Some (\<lambda>p. None)\<rparr>"

definition s0 :: loop_state where
  "s0 = \<lparr>control = AtSelect, ctx_done = False, trace = []\<rparr>"

definition s1 :: loop_state where
  "s1 = \<lparr>control = AtSelect, ctx_done = True,
         trace = [Invoke OnRemoveHandler ''/secrets/f2'']\<rparr>"

definition s2 :: loop_state where
  "s2 = \<lparr>control = InHandler OnCreateHandler ''/secrets/bad'', ctx_done = False,
         trace = [Invoke OnCreateHandler ''/secrets/bad'']\<rparr>"

text \<open>An fsnotify that cannot subscribe the empty path.\<close>

definition fs0 :: fsnotify where
  "fs0 = \<lparr>NewWatcher_err = None,
          Add_err = (\<lambda>p. if p = [] then Some ''no such file or directory'' else None)\<rparr>"

text \<open>
  A \<open>NewSecrets\<close> that rejects an empty file, one readable file, a middleware that
  counts the calls that pass through it and one that appends its number to a log
  before it calls the next handler.
\<close>

definition NewSecrets0 :: "string \<Rightarrow> string + string" where
  "NewSecrets0 r = (if r = [] then Inl ''EOF'' else Inr r)"

definition files0 :: "string \<Rightarrow> string option" where
  "files0 p = (if p = ''/secrets.json'' then Some ''{}'' else None)"

definition count_calls :: "(string, nat) SecretMiddleware" where
  "count_calls next sec n = next sec (Suc n)"

definition tag :: "nat \<Rightarrow> (string, nat list) SecretMiddleware" where
  "tag i next sec log = next sec (log @ [i])"

definition counting_store :: "(string, nat) store" where
  "counting_store =
     secretHandler \<lparr>watcher = None, secretHandlerFunc = nopSecretHandlerFunc\<rparr> [count_calls]"

definition tagged_store :: "(string, nat list) store" where
  "tagged_store =
     \<lparr>watcher = Some \<lparr>data = ''{}'', stopped = False\<rparr>,
      secretHandlerFunc = tag 2 (tag 1 nopSecretHandlerFunc)\<rparr>"

definition csi0 :: "(string, nat) vaultCsiStore" where
  "csi0 = \<lparr>csi_watcher = None, csi_secretHandlerFunc = nopSecretHandlerFunc\<rparr>"

text \<open>A call with results \<open>(T, error)\<close> gives its caller an error: it returns, and the error is not nil.\<close>

fun returns_error :: "('a \<times> string option) outcome \<Rightarrow> bool" where
  "returns_error (Return (v, Some err)) = True"
| "returns_error (Return (v, None)) = False"
| "returns_error (Panic msg) = False"

section \<open>Properties of the directory watcher\<close>

lemma Op_distinct:
  "Create \<noteq> Write" "Create \<noteq> Remove" "Create \<noteq> Rename" "Create \<noteq> Chmod"
  "Write \<noteq> Remove" "Write \<noteq> Rename" "Write \<noteq> Chmod"
  "Remove \<noteq> Rename" "Remove \<noteq> Chmod" "Rename \<noteq> Chmod"
  by (simp_all add: Create_def Write_def Remove_def Rename_def Chmod_def)

lemma trace_call_handler:
  "trace (call_handler cfg h path s) = trace s @ [Invoke h path]"
  by (simp add: call_handler_def split: option.split)

lemma control_call_handler:
  "control (call_handler cfg h path s) =
     (if handler_of cfg h = None then Panicked else InHandler h path)"
  by (simp add: call_handler_def split: option.split)

text \<open>
  C1. For every event that the loop's \<open>select\<close> receives: when the operation is
  \<open>Create\<close> or \<open>Write\<close>, the loop calls \<open>onCreate\<close> with the event's path; when it is
  \<open>Remove\<close> or \<open>Rename\<close>, it calls \<open>onRemove\<close> with the event's path; for any other
  operation it calls neither and stays at the \<open>select\<close>. After the call statement the
  handler is running, unless the func value is nil, when the call panics.
\<close>

theorem watcherLoop_dispatches_event:
  assumes "control s = AtSelect"
  shows "\<exists>s'. step cfg (Select (WatcherEvent ev)) s = Some s' \<and>
           trace s' = trace s @
             (if Op ev = Create \<or> Op ev = Write then [Invoke OnCreateHandler (Name ev)]
              else if Op ev = Remove \<or> Op ev = Rename then [Invoke OnRemoveHandler (Name ev)]
              else []) \<and>
           control s' =
             (if Op ev = Create \<or> Op ev = Write
              then (if OnCreate cfg = None then Panicked
                    else InHandler OnCreateHandler (Name ev))
              else if Op ev = Remove \<or> Op ev = Rename
              then (if OnRemove cfg = None then Panicked
                    else InHandler OnRemoveHandler (Name ev))
              else AtSelect)"
  using assms by (simp add: trace_call_handler control_call_handler handler_of_def)

theorem watcherLoop_dispatches_event_witness:
  "control s0 = AtSelect \<and>
   (\<exists>s'. step cfg0 (Select (WatcherEvent \<lparr>Name = ''/secrets/f1'', Op = Write\<rparr>)) s0 = Some s' \<and>
          trace s' = [Invoke OnCreateHandler ''/secrets/f1''] \<and>
          control s' = InHandler OnCreateHandler ''/secrets/f1'')"
  using watcherLoop_dispatches_event [of s0 cfg0 "\<lparr>Name = ''/secrets/f1'', Op = Write\<rparr>"]
  by (simp add: s0_def cfg0_def)

lemma step_event_calls:
  assumes "control s = AtSelect"
    and "(Op ev = Create \<or> Op ev = Write) \<and> h = OnCreateHandler \<or>
         (Op ev = Remove \<or> Op ev = Rename) \<and> h = OnRemoveHandler"
  shows "step cfg (Select (WatcherEvent ev)) s = Some (call_handler cfg h (Name ev) s)"
  using assms by (auto simp: Op_distinct Op_distinct [symmetric])

lemma step_return_from_call:
  assumes "handler_of cfg h = Some f"
  shows "step cfg HandlerReturn (call_handler cfg h path s) =
         Some (handler_returns cfg h path (call_handler cfg h path s))"
  using assms by (simp add: call_handler_def)

lemma failed_call_state:
  assumes "control s = AtSelect" and "handler_of cfg h = Some f" and "f path = Some err"
  shows "handler_returns cfg h path (call_handler cfg h path s) =
         s\<lparr>trace := trace s @ [Invoke h path, LoggerLog (handler_error_prefix h @ err)]\<rparr>"
  using assms by (cases s) (simp add: call_handler_def handler_returns_def)

text \<open>
  C6. When the handler that an event is dispatched to returns an error, the loop logs
  the error and goes on: after the one call and the one log entry it is back at the
  \<open>select\<close> in an otherwise unchanged state and handles the rest of its inputs from
  there. The handler is not called a second time, and the loop neither returns nor
  panics.
\<close>

theorem handler_error_is_logged_and_loop_continues:
  assumes "control s = AtSelect"
    and "(Op ev = Create \<or> Op ev = Write) \<and> h = OnCreateHandler \<or>
         (Op ev = Remove \<or> Op ev = Rename) \<and> h = OnRemoveHandler"
    and "handler_of cfg h = Some f"
    and "f (Name ev) = Some err"
  shows "watcherLoop cfg (Select (WatcherEvent ev) # HandlerReturn # rest) s =
         watcherLoop cfg rest
           (s\<lparr>trace := trace s @
                [Invoke h (Name ev), LoggerLog (handler_error_prefix h @ err)]\<rparr>)"
proof -
  have "watcherLoop cfg (Select (WatcherEvent ev) # HandlerReturn # rest) s =
        watcherLoop cfg (HandlerReturn # rest) (call_handler cfg h (Name ev) s)"
    using step_event_calls [OF assms(1,2)] by simp
  also have "\<dots> = watcherLoop cfg rest
                     (handler_returns cfg h (Name ev) (call_handler cfg h (Name ev) s))"
    using step_return_from_call [OF assms(3)] by simp
  finally show ?thesis
    using failed_call_state [OF assms(1,3,4)] by simp
qed

theorem handler_error_is_logged_and_loop_continues_witness:
  "watcherLoop cfg0
     [Select (WatcherEvent \<lparr>Name = ''/secrets/bad'', Op = Create\<rparr>), HandlerReturn,
      Select (WatcherEvent \<lparr>Name = ''/secrets/f2'', Op = Remove\<rparr>)] s0 =
   Some \<lparr>control = InHandler OnRemoveHandler ''/secrets/f2'', ctx_done = False,
         trace = [Invoke OnCreateHandler ''/secrets/bad'',
                  LoggerLog ''directorywatcher: create handler error: unreadable'',
                  Invoke OnRemoveHandler ''/secrets/f2'']\<rparr>"
  using handler_error_is_logged_and_loop_continues
    [of s0 "\<lparr>Name = ''/secrets/bad'', Op = Create\<rparr>" OnCreateHandler cfg0
        "\<lambda>p. if p = ''/secrets/bad'' then Some ''unreadable'' else None" "''unreadable''"
        "[Select (WatcherEvent \<lparr>Name = ''/secrets/f2'', Op = Remove\<rparr>)]"]
  by (simp add: s0_def cfg0_def handler_of_def handler_error_prefix_def call_handler_def
      Create_def Write_def Remove_def Rename_def)

lemma New_ignores_handlers:
  "New fs parent_done (cfg\<lparr>OnCreate := a, OnRemove := b\<rparr>) = New fs parent_done cfg"
  by (simp add: New_def split: option.split)

text \<open>
  C7. \<open>New\<close> returns a non-nil error and starts no watcher loop when
  \<open>fsnotify.NewWatcher\<close> fails or when \<open>Add\<close> of the configured path fails; when it
  returns a nil error the loop has been started, at its \<open>select\<close> and with nothing done
  yet; and the loop is started exactly when the returned error is nil.
\<close>

theorem New_starts_loop_iff_nil_error:
  "(NewWatcher_err fs \<noteq> None \<or> Add_err fs (Path cfg) \<noteq> None \<longrightarrow>
      returned_err (New fs parent_done cfg) \<noteq> None \<and> started (New fs parent_done cfg) = None) \<and>
   (returned_err (New fs parent_done cfg) = None \<longrightarrow>
      started (New fs parent_done cfg) =
        Some \<lparr>control = AtSelect, ctx_done = parent_done, trace = []\<rparr>) \<and>
   ((started (New fs parent_done cfg) \<noteq> None) = (returned_err (New fs parent_done cfg) = None))"
  by (simp add: New_def split: option.split)

theorem New_starts_loop_iff_nil_error_witness:
  "Add_err fs0 (Path (cfg0\<lparr>Path := []\<rparr>)) \<noteq> None \<and>
   returned_err (New fs0 False (cfg0\<lparr>Path := []\<rparr>)) = Some ''no such file or directory'' \<and>
   started (New fs0 False (cfg0\<lparr>Path := []\<rparr>)) = None \<and>
   returned_err (New fs0 False cfg0) = None \<and>
   started (New fs0 False cfg0) = Some s0"
  using New_starts_loop_iff_nil_error [of fs0 "cfg0\<lparr>Path := []\<rparr>" False]
    New_starts_loop_iff_nil_error [of fs0 cfg0 False]
  by (simp add: fs0_def cfg0_def s0_def New_def)

lemma returned_is_final:
  "control t = Returned \<Longrightarrow> watcherLoop cfg ins t = Some u \<Longrightarrow>
     control u = Returned \<and> trace u = trace t"
proof (induction ins arbitrary: t)
  case Nil
  then show ?case by simp
next
  case (Cons i ins)
  show ?case
  proof (cases i)
    case Cancel
    with Cons.prems have "watcherLoop cfg ins (Stop t) = Some u" by simp
    moreover have "control (Stop t) = Returned" using Cons.prems(1) by (simp add: Stop_def)
    ultimately have "control u = Returned \<and> trace u = trace (Stop t)"
      using Cons.IH by blast
    then show ?thesis by (simp add: Stop_def)
  next
    case (Select r)
    with Cons.prems show ?thesis by simp
  next
    case HandlerReturn
    with Cons.prems show ?thesis by simp
  qed
qed

lemma handler_returns_Stop:
  "handler_returns cfg h path (Stop s) = Stop (handler_returns cfg h path s)"
  by (simp add: handler_returns_def Stop_def split: option.split)

text \<open>
  C8. When the \<open>select\<close> takes the cancellation case, the loop closes the fsnotify
  watcher and returns; it logs nothing, and whatever happens afterwards no handler is
  called any more. A cancellation that arrives while a handler runs changes nothing but
  the context: the handler stays in flight, the cancellation case cannot be taken
  before the handler has returned, and the handler's return has the effect it has
  without the cancellation.
\<close>

theorem cancellation_closes_and_returns:
  "(control s = AtSelect \<and> ctx_done s \<longrightarrow>
      (\<exists>t. step cfg (Select CtxDone) s = Some t \<and> control t = Returned \<and>
           trace t = trace s @ [WatcherClose] \<and>
           (\<forall>ins u. watcherLoop cfg ins t = Some u \<longrightarrow>
                      control u = Returned \<and> trace u = trace t))) \<and>
   (control s = InHandler h path \<longrightarrow>
      step cfg Cancel s = Some (Stop s) \<and>
      control (Stop s) = InHandler h path \<and> trace (Stop s) = trace s \<and>
      step cfg (Select CtxDone) (Stop s) = None \<and>
      step cfg HandlerReturn (Stop s) = map_option Stop (step cfg HandlerReturn s))"
proof (intro conjI impI)
  assume a: "control s = AtSelect \<and> ctx_done s"
  let ?t = "s\<lparr>control := Returned, trace := trace s @ [WatcherClose]\<rparr>"
  have "step cfg (Select CtxDone) s = Some ?t" using a by simp
  moreover have "control ?t = Returned" by simp
  moreover have "trace ?t = trace s @ [WatcherClose]" by simp
  moreover have "\<forall>ins u. watcherLoop cfg ins ?t = Some u \<longrightarrow>
                   control u = Returned \<and> trace u = trace ?t"
    using returned_is_final [of ?t cfg] by simp
  ultimately show "\<exists>t. step cfg (Select CtxDone) s = Some t \<and> control t = Returned \<and>
           trace t = trace s @ [WatcherClose] \<and>
           (\<forall>ins u. watcherLoop cfg ins t = Some u \<longrightarrow>
                      control u = Returned \<and> trace u = trace t)"
    by blast
next
  assume "control s = InHandler h path"
  then show "step cfg (Select CtxDone) (Stop s) = None" by (simp add: Stop_def)
next
  assume b: "control s = InHandler h path"
  then have "control (Stop s) = InHandler h path" by (simp add: Stop_def)
  with b show "step cfg HandlerReturn (Stop s) = map_option Stop (step cfg HandlerReturn s)"
    by (simp add: handler_returns_Stop)
qed (simp_all add: Stop_def)

theorem cancellation_closes_and_returns_witness:
  "control s1 = AtSelect \<and> ctx_done s1 \<and>
   step cfg0 (Select CtxDone) s1 =
     Some \<lparr>control = Returned, ctx_done = True,
           trace = [Invoke OnRemoveHandler ''/secrets/f2'', WatcherClose]\<rparr> \<and>
   control s2 = InHandler OnCreateHandler ''/secrets/bad'' \<and>
   step cfg0 (Select CtxDone) (Stop s2) = None \<and>
   step cfg0 HandlerReturn (Stop s2) =
     Some \<lparr>control = AtSelect, ctx_done = True,
           trace = [Invoke OnCreateHandler ''/secrets/bad'',
                    LoggerLog ''directorywatcher: create handler error: unreadable'']\<rparr>"
  using cancellation_closes_and_returns [of s1 cfg0 OnCreateHandler "''/secrets/bad''"]
    cancellation_closes_and_returns [of s2 cfg0 OnCreateHandler "''/secrets/bad''"]
  by (simp add: s1_def s2_def cfg0_def Stop_def handler_returns_def handler_of_def
      handler_error_prefix_def)

section \<open>Properties of the secrets store\<close>

lemma getProvider_known:
  "getProvider (c\<lparr>Provider := ''vault''\<rparr>) = (VaultProvider, None)"
  "getProvider (c\<lparr>Provider := ''vault_csi''\<rparr>) = (VaultCsiProvider, None)"
  by (simp_all add: getProvider_def)

lemma getProvider_unknown:
  "Provider c \<noteq> ''vault'' \<Longrightarrow> Provider c \<noteq> ''vault_csi'' \<Longrightarrow>
   getProvider c =
     (VaultProvider,
      Some (''unknown secret provider '' @ Provider c @ '', must be one of ['vault', 'vault_csi']''))"
  by (simp add: getProvider_def)

lemma InitFromConfig_is_NewStore:
  "InitFromConfig NewSecrets files cfg w = NewStore NewSecrets files (secrets_Path cfg) [] w"
  by (simp add: InitFromConfig_def split: prod.split sum.split)

text \<open>
  C2. The provider named \<open>consul\<close> is one that \<open>getProvider\<close> rejects, with an error
  that names the allowed set; \<open>InitFromConfig\<close> does not call \<open>getProvider\<close> and builds
  a store from a config with that provider all the same. The empty provider, which the
  comment on the field says defaults to \<open>vault\<close>, is rejected by \<open>getProvider\<close> too.
\<close>

theorem InitFromConfig_never_resolves_Provider:
  "snd (getProvider \<lparr>secrets_Path = ''/secrets.json'', Provider = ''consul''\<rparr>) =
     Some ''unknown secret provider consul, must be one of ['vault', 'vault_csi']'' \<and>
   fst (InitFromConfig NewSecrets0 files0
          \<lparr>secrets_Path = ''/secrets.json'', Provider = ''consul''\<rparr> (0::nat)) =
     Inr \<lparr>watcher = Some \<lparr>data = ''{}'', stopped = False\<rparr>,
          secretHandlerFunc = nopSecretHandlerFunc\<rparr> \<and>
   snd (getProvider \<lparr>secrets_Path = ''/secrets.json'', Provider = []\<rparr>) =
     Some ''unknown secret provider , must be one of ['vault', 'vault_csi']''"
  by (simp add: getProvider_def InitFromConfig_def NewStore_def filewatcher_New_def parser_def
      NewSecrets0_def files0_def)

text \<open>
  C3. \<open>parser\<close> calls the handler chain exactly when \<open>NewSecrets\<close> succeeds. On a parse
  error it returns that error and the state is the one before the call. On a success
  it returns the parsed value and the state is the one the chain leaves when called
  with that value; this holds in every state, so a second parse of the same bytes
  calls the chain a second time.
\<close>

theorem parser_invokes_chain_iff_parsed:
  "(\<forall>err. NewSecrets r = Inl err \<longrightarrow> parser NewSecrets s r w = (Inl err, w)) \<and>
   (\<forall>secrets. NewSecrets r = Inr secrets \<longrightarrow>
      parser NewSecrets s r w = (Inr secrets, secretHandlerFunc s secrets w) \<and>
      parser NewSecrets s r (snd (parser NewSecrets s r w)) =
        (Inr secrets, secretHandlerFunc s secrets (secretHandlerFunc s secrets w)))"
  by (simp add: parser_def)

theorem parser_invokes_chain_iff_parsed_witness:
  "NewSecrets0 [] = Inl ''EOF'' \<and> parser NewSecrets0 counting_store [] 0 = (Inl ''EOF'', 0) \<and>
   NewSecrets0 ''{}'' = Inr ''{}'' \<and> parser NewSecrets0 counting_store ''{}'' 0 = (Inr ''{}'', 1) \<and>
   parser NewSecrets0 counting_store ''{}'' (snd (parser NewSecrets0 counting_store ''{}'' 0)) =
     (Inr ''{}'', 2)"
  using parser_invokes_chain_iff_parsed [of NewSecrets0 "[]" counting_store 0]
    parser_invokes_chain_iff_parsed [of NewSecrets0 "''{}''" counting_store 0]
  by (simp add: NewSecrets0_def counting_store_def count_calls_def nopSecretHandlerFunc_def
      parser_def)

lemma secretHandler_append:
  "secretHandler s (ms @ ms') = secretHandler (secretHandler s ms) ms'"
  by (induction ms arbitrary: s) simp_all

lemma watcher_secretHandler: "watcher (secretHandler s ms) = watcher s"
  by (induction ms arbitrary: s) simp_all

lemma secretHandlerFunc_foldl:
  "secretHandlerFunc (secretHandler s ms) = foldl (\<lambda>h m. m h) (secretHandlerFunc s) ms"
  by (induction ms arbitrary: s) simp_all

lemma chain_spec_Nil: "chain_spec [] = nopSecretHandlerFunc"
  by (simp add: chain_spec_def)

lemma chain_spec_snoc: "chain_spec (ms @ [m]) = m (chain_spec ms)"
  by (simp add: chain_spec_def)

lemma secretHandler_extends_chain:
  "secretHandlerFunc s = chain_spec ms \<Longrightarrow>
   secretHandlerFunc (secretHandler s ms') = chain_spec (ms @ ms')"
proof (induction ms' rule: rev_induct)
  case Nil
  then show ?case by simp
next
  case (snoc m ms')
  have "secretHandlerFunc (secretHandler s (ms' @ [m])) =
        m (secretHandlerFunc (secretHandler s ms'))"
    by (simp add: secretHandler_append)
  also have "\<dots> = m (chain_spec (ms @ ms'))" using snoc by simp
  also have "\<dots> = chain_spec ((ms @ ms') @ [m])" by (simp only: chain_spec_snoc)
  finally show ?case by simp
qed

lemma NewStore_Inr:
  assumes "NewStore NewSecrets files path ms w = (Inr s, w')"
  shows "\<exists>fw. s = (secretHandler \<lparr>watcher = None, secretHandlerFunc = nopSecretHandlerFunc\<rparr> ms)
                  \<lparr>watcher := Some fw\<rparr>"
  using assms by (auto simp: NewStore_def Let_def split: prod.splits sum.splits)

lemma AddMiddlewares_Return:
  assumes "AddMiddlewares s ms w = Return (s', w')"
  shows "s' = secretHandler s ms"
  using assms by (auto simp: AddMiddlewares_def Let_def split: outcome.splits)

text \<open>
  C4. The chain of no middleware is the no-op handler, and the chain of \<open>m_1..m_n\<close> and
  then \<open>m\<close> is \<open>m\<close> applied to the chain of \<open>m_1..m_n\<close>. The store that \<open>NewStore\<close>
  returns for the middlewares \<open>ms\<close> holds the chain of \<open>ms\<close>; and when a store holds
  the chain of \<open>ms\<close>, after \<open>AddMiddlewares\<close> with \<open>ms'\<close> it holds the chain of \<open>ms\<close>
  followed by \<open>ms'\<close>. So after any number of registrations the handler is
  \<open>m_n(m_{n-1}(...m_1(noop)))\<close>, in the order of registration.
\<close>

theorem handler_chain_wraps_in_registration_order:
  "chain_spec [] = (nopSecretHandlerFunc :: ('sec, 'w) SecretHandlerFunc) \<and>
   chain_spec (ms @ [m]) = m (chain_spec ms) \<and>
   (NewStore NewSecrets files path ms w = (Inr s, w') \<longrightarrow> secretHandlerFunc s = chain_spec ms) \<and>
   (secretHandlerFunc t = chain_spec ms \<and> AddMiddlewares t ms' v = Return (t', v') \<longrightarrow>
      secretHandlerFunc t' = chain_spec (ms @ ms'))"
proof (intro conjI impI)
  show "chain_spec [] = (nopSecretHandlerFunc :: ('sec, 'w) SecretHandlerFunc)"
    by (rule chain_spec_Nil)
  show "chain_spec (ms @ [m]) = m (chain_spec ms)" by (rule chain_spec_snoc)
next
  assume "NewStore NewSecrets files path ms w = (Inr s, w')"
  from NewStore_Inr [OF this] obtain fw where
    "s = (secretHandler \<lparr>watcher = None, secretHandlerFunc = nopSecretHandlerFunc\<rparr> ms)
           \<lparr>watcher := Some fw\<rparr>" ..
  then have "secretHandlerFunc s =
             secretHandlerFunc
               (secretHandler \<lparr>watcher = None, secretHandlerFunc = nopSecretHandlerFunc\<rparr> ms)"
    by simp
  also have "\<dots> = chain_spec ([] @ ms)"
    by (rule secretHandler_extends_chain) (simp add: chain_spec_Nil)
  finally show "secretHandlerFunc s = chain_spec ms" by simp
next
  assume a: "secretHandlerFunc t = chain_spec ms \<and> AddMiddlewares t ms' v = Return (t', v')"
  then have "AddMiddlewares t ms' v = Return (t', v')" by simp
  then have "t' = secretHandler t ms'" by (rule AddMiddlewares_Return)
  moreover have "secretHandlerFunc (secretHandler t ms') = chain_spec (ms @ ms')"
    using a by (intro secretHandler_extends_chain) simp
  ultimately show "secretHandlerFunc t' = chain_spec (ms @ ms')" by simp
qed

theorem handler_chain_wraps_in_registration_order_witness:
  "NewStore NewSecrets0 files0 ''/secrets.json'' [tag 1, tag 2] [] = (Inr tagged_store, [2, 1]) \<and>
   secretHandlerFunc tagged_store = chain_spec [tag 1, tag 2] \<and>
   AddMiddlewares tagged_store [tag 3] [] = Return (secretHandler tagged_store [tag 3], [3, 2, 1]) \<and>
   secretHandlerFunc (secretHandler tagged_store [tag 3]) = chain_spec ([tag 1, tag 2] @ [tag 3])"
proof -
  have new: "NewStore NewSecrets0 files0 ''/secrets.json'' [tag 1, tag 2] [] =
             (Inr tagged_store, [2, 1])"
    by (simp add: NewStore_def filewatcher_New_def parser_def NewSecrets0_def files0_def
        tagged_store_def tag_def nopSecretHandlerFunc_def)
  have add: "AddMiddlewares tagged_store [tag 3] [] =
             Return (secretHandler tagged_store [tag 3], [3, 2, 1])"
    by (simp add: AddMiddlewares_def getSecrets_def filewatcher_Get_def tagged_store_def
        tag_def nopSecretHandlerFunc_def)
  note inst = handler_chain_wraps_in_registration_order
    [of "[tag 1, tag 2]" "tag 3" NewSecrets0 files0 "''/secrets.json''" "[]" tagged_store "[2, 1]"
        tagged_store "[tag 3]" "[]" "secretHandler tagged_store [tag 3]" "[3, 2, 1]"]
  have chain: "secretHandlerFunc tagged_store = chain_spec [tag 1, tag 2]"
    using inst new by blast
  have "secretHandlerFunc (secretHandler tagged_store [tag 3]) =
        chain_spec ([tag 1, tag 2] @ [tag 3])"
    using inst chain add by blast
  with new add chain show ?thesis by blast
qed

lemma NewStore_has_watcher:
  assumes "NewStore NewSecrets files path ms w = (Inr s, w')"
  shows "\<exists>fw. watcher s = Some fw"
  using NewStore_Inr [OF assms] by auto

lemma AddMiddlewares_keeps_watcher:
  assumes "AddMiddlewares s ms w = Return (s', w')"
  shows "watcher s' = watcher s"
  using AddMiddlewares_Return [OF assms] by (simp add: watcher_secretHandler)

text \<open>
  C5. On a store with a watcher, \<open>AddMiddlewares\<close> wraps the given middlewares, in
  their order, around the handler registered so far, and in the same call invokes the
  resulting handler with the value that the watcher's \<open>Get\<close> returns. The call takes
  no filesystem event.
\<close>

theorem AddMiddlewares_invokes_new_chain_at_once:
  assumes "watcher s = Some fw"
  shows "AddMiddlewares s ms w =
           Return (secretHandler s ms,
                   secretHandlerFunc (secretHandler s ms) (filewatcher_Get fw) w) \<and>
         secretHandlerFunc (secretHandler s ms) = foldl (\<lambda>h m. m h) (secretHandlerFunc s) ms"
  using assms
  by (simp add: AddMiddlewares_def getSecrets_def watcher_secretHandler secretHandlerFunc_foldl)

theorem AddMiddlewares_invokes_new_chain_at_once_witness:
  "watcher tagged_store = Some \<lparr>data = ''{}'', stopped = False\<rparr> \<and>
   AddMiddlewares tagged_store [tag 3, tag 4] [] =
     Return (secretHandler tagged_store [tag 3, tag 4], [4, 3, 2, 1])"
  using AddMiddlewares_invokes_new_chain_at_once
    [of tagged_store "\<lparr>data = ''{}'', stopped = False\<rparr>" "[tag 3, tag 4]" "[]"]
  by (simp add: tagged_store_def tag_def nopSecretHandlerFunc_def filewatcher_Get_def)

text \<open>
  C10. \<open>AddMiddlewares\<close> with no middleware, on a store with a watcher, returns the
  store as it was, handler included, and still invokes that handler with the value
  that the watcher's \<open>Get\<close> returns.
\<close>

theorem AddMiddlewares_without_middlewares_replays:
  assumes "watcher s = Some fw"
  shows "AddMiddlewares s [] w = Return (s, secretHandlerFunc s (filewatcher_Get fw) w)"
  using assms by (simp add: AddMiddlewares_def getSecrets_def)

theorem AddMiddlewares_without_middlewares_replays_witness:
  "watcher tagged_store = Some \<lparr>data = ''{}'', stopped = False\<rparr> \<and>
   AddMiddlewares tagged_store [] [] = Return (tagged_store, [2, 1])"
  using AddMiddlewares_without_middlewares_replays
    [of tagged_store "\<lparr>data = ''{}'', stopped = False\<rparr>" "[]"]
  by (simp add: tagged_store_def tag_def nopSecretHandlerFunc_def filewatcher_Get_def)

lemma vaultCsiStore_stubs_panic:
  "vaultCsiStore_AddMiddlewares s ms w = Panic ''implement me''"
  "vaultCsiStore_GetSimpleSecret s path = Panic ''implement me''"
  "vaultCsiStore_GetVersionedSecret s path = Panic ''implement me''"
  "vaultCsiStore_GetCredentialSecret s path = Panic ''implement me''"
  "vaultCsiStore_GetVault s = Panic ''implement me''"
  by (simp_all add: vaultCsiStore_AddMiddlewares_def vaultCsiStore_GetSimpleSecret_def
      vaultCsiStore_GetVersionedSecret_def vaultCsiStore_GetCredentialSecret_def
      vaultCsiStore_GetVault_def)

text \<open>
  C9. The claim asks that an operation the CSI backend does not support gives its
  caller an error instead of crashing. The code does not do so: on the store \<open>csi0\<close>
  each of \<open>AddMiddlewares\<close>, \<open>GetSimpleSecret\<close>, \<open>GetVersionedSecret\<close>,
  \<open>GetCredentialSecret\<close> and \<open>GetVault\<close> panics with the message \<open>implement me\<close>, and
  none of the four with an error result returns an error. The methods are stubs marked
  \<open>TODO\<close>, under a \<open>Store\<close> interface whose comments describe returning methods
  (\<open>GetVault\<close>: always returns nil error), as the methods of \<open>store\<close> are.
\<close>

theorem vaultCsiStore_operations_panic_at_csi0:
  "vaultCsiStore_AddMiddlewares csi0 [] 0 = Panic ''implement me'' \<and>
   (vaultCsiStore_GetSimpleSecret csi0 ''secret/db'' :: (string \<times> string option) outcome) =
     Panic ''implement me'' \<and>
   (vaultCsiStore_GetVersionedSecret csi0 ''secret/db'' :: (string \<times> string option) outcome) =
     Panic ''implement me'' \<and>
   (vaultCsiStore_GetCredentialSecret csi0 ''secret/db'' :: (string \<times> string option) outcome) =
     Panic ''implement me'' \<and>
   (vaultCsiStore_GetVault csi0 :: (string \<times> string option) outcome) = Panic ''implement me'' \<and>
   \<not> returns_error
       (vaultCsiStore_GetSimpleSecret csi0 ''secret/db'' :: (string \<times> string option) outcome) \<and>
   \<not> returns_error
       (vaultCsiStore_GetVersionedSecret csi0 ''secret/db'' :: (string \<times> string option) outcome) \<and>
   \<not> returns_error
       (vaultCsiStore_GetCredentialSecret csi0 ''secret/db'' :: (string \<times> string option) outcome) \<and>
   \<not> returns_error (vaultCsiStore_GetVault csi0 :: (string \<times> string option) outcome)"
  by (simp add: vaultCsiStore_stubs_panic)

end
